theory Spec2Isabelle
  imports Main "HOL-Library.Multiset"
begin

section \<open>Python values, exceptions and the clustering object\<close>

text \<open>
  The module \<open>cdlib/readwrite/io.py\<close> moves clustering objects to and from CSV and JSON
  files. Python is dynamically typed, so the values the functions touch are modelled by
  one datatype of Python values. A \<open>str\<close> is a list of code points below 256, a
  \<open>float\<close> is carried by the literal that \<open>repr\<close> prints for it (the module never
  computes with floats), and a \<open>dict\<close> is the list of its items in insertion order,
  with string keys.
\<close>

datatype pyval =
    PNone
  | PBool bool
  | PInt int
  | PFloat string
  | PStr string
  | PList "pyval list"
  | PTuple "pyval list"
  | PDict "(string \<times> pyval) list"

text \<open>The exceptions that the functions of the module can raise.\<close>

datatype py_error =
    FileNotFoundError
  | JSONDecodeError
  | KeyError pyval
  | IndexError
  | TypeError
  | ValueError

text \<open>Sequencing of computations that may raise: the first exception ends the computation.\<close>

definition err_bind :: "py_error + 'a \<Rightarrow> ('a \<Rightarrow> py_error + 'b) \<Rightarrow> py_error + 'b" where
  "err_bind m f = (case m of Inl e \<Rightarrow> Inl e | Inr x \<Rightarrow> f x)"

text \<open>A comprehension or \<open>for\<close> loop that applies \<open>f\<close> to every item, left to right.\<close>

fun traverse :: "('a \<Rightarrow> py_error + 'b) \<Rightarrow> 'a list \<Rightarrow> py_error + 'b list" where
  "traverse f [] = Inr []"
| "traverse f (x # xs) =
     err_bind (f x) (\<lambda>y. err_bind (traverse f xs) (\<lambda>ys. Inr (y # ys)))"

text \<open>
  Iteration over a value, as \<open>tuple(c)\<close> and \<open>for e in c\<close> perform it: a list or tuple
  gives its items, a string its characters, a dict its keys, and any other value
  raises \<open>TypeError\<close>.
\<close>

fun py_iter :: "pyval \<Rightarrow> py_error + pyval list" where
  "py_iter (PList xs) = Inr xs"
| "py_iter (PTuple xs) = Inr xs"
| "py_iter (PStr s) = Inr (map (\<lambda>c. PStr [c]) s)"
| "py_iter (PDict d) = Inr (map (\<lambda>kv. PStr (fst kv)) d)"
| "py_iter PNone = Inl TypeError"
| "py_iter (PBool b) = Inl TypeError"
| "py_iter (PInt i) = Inl TypeError"
| "py_iter (PFloat r) = Inl TypeError"

definition py_tuple :: "pyval \<Rightarrow> py_error + pyval" where
  "py_tuple v = err_bind (py_iter v) (\<lambda>xs. Inr (PTuple xs))"

text \<open>
  Subscription \<open>coms[key]\<close> with a string key: a dict looks the key up and raises
  \<open>KeyError\<close> when it is absent; every other value raises \<open>TypeError\<close>.
\<close>

fun py_getitem :: "pyval \<Rightarrow> string \<Rightarrow> py_error + pyval" where
  "py_getitem (PDict d) k =
     (case map_of d k of None \<Rightarrow> Inl (KeyError (PStr k)) | Some v \<Rightarrow> Inr v)"
| "py_getitem v k = Inl TypeError"

text \<open>
  The test \<open>key in coms\<close> with a string key: key membership on a dict, item
  membership on a list or tuple, the substring test on a string, \<open>TypeError\<close> on
  every other value.
\<close>

fun py_contains :: "pyval \<Rightarrow> string \<Rightarrow> py_error + bool" where
  "py_contains (PDict d) k = Inr (map_of d k \<noteq> None)"
| "py_contains (PList xs) k = Inr (List.member xs (PStr k))"
| "py_contains (PTuple xs) k = Inr (List.member xs (PStr k))"
| "py_contains (PStr s) k =
     Inr (list_ex (\<lambda>i. take (length k) (drop i s) = k) [0..<Suc (length s)])"
| "py_contains v k = Inl TypeError"

text \<open>Subscription \<open>x[0]\<close>.\<close>

fun py_first :: "pyval \<Rightarrow> py_error + pyval" where
  "py_first (PList []) = Inl IndexError"
| "py_first (PList (x # xs)) = Inr x"
| "py_first (PTuple []) = Inl IndexError"
| "py_first (PTuple (x # xs)) = Inr x"
| "py_first (PStr []) = Inl IndexError"
| "py_first (PStr (c # cs)) = Inr (PStr [c])"
| "py_first (PDict d) = Inl (KeyError (PInt 0))"
| "py_first v = Inl TypeError"

text \<open>The test \<open>type(x) is list\<close>.\<close>

fun is_list :: "pyval \<Rightarrow> bool" where
  "is_list (PList xs) = True"
| "is_list v = False"

text \<open>
  The clustering object. Its class can be reassigned after construction
  (\<open>nc.__class__ = ...\<close>), so the class is a field; the attribute
  \<open>allocation_matrix\<close> exists only on some objects, so it is optional.
\<close>

datatype py_class = NodeClustering | FuzzyNodeClustering | EdgeClustering

record clustering =
  py_class :: py_class
  communities :: "pyval list"
  graph :: pyval
  method_name :: pyval
  method_parameters :: pyval
  overlap :: pyval
  node_coverage :: pyval
  allocation_matrix :: "pyval option"

text \<open>
  Modelled from the spec: the constructor \<open>NodeClustering(communities, graph,
  method_name, method_parameters, overlap)\<close> is imported from the package and is not
  part of this module. It stores its arguments in the fields of the same names, leaves
  the coverage unset and creates no allocation matrix.
\<close>

definition new_NodeClustering ::
  "pyval list \<Rightarrow> pyval \<Rightarrow> pyval \<Rightarrow> pyval \<Rightarrow> pyval \<Rightarrow> clustering" where
  "new_NodeClustering cs g name params ov =
     \<lparr>py_class = NodeClustering, communities = cs, graph = g, method_name = name,
      method_parameters = params, overlap = ov, node_coverage = PNone,
      allocation_matrix = None\<rparr>"

section \<open>The JSON encoder and decoder\<close>

text \<open>
  The standard library's \<open>json\<close> module is a collaborator of this module. Its text
  grammar is not modelled: a JSON text is either malformed or stands for the document it
  denotes. A document keeps the order of an object's fields and may repeat a key.
\<close>

datatype json =
    JNull
  | JBool bool
  | JInt int
  | JFloat string
  | JStr string
  | JArr "json list"
  | JObj "(string \<times> json) list"

datatype json_text = Malformed | Document json

text \<open>Assignment \<open>d[k] = v\<close>: an existing key keeps its place and takes the new value.\<close>

definition dict_setitem :: "(string \<times> 'v) list \<Rightarrow> string \<Rightarrow> 'v \<Rightarrow> (string \<times> 'v) list" where
  "dict_setitem d k v =
     (if k \<in> fst ` set d then map (\<lambda>kv. if fst kv = k then (k, v) else kv) d
      else d @ [(k, v)])"

text \<open>The decoder builds a dict from an object's fields in order, so the last of a repeated key wins.\<close>

definition dict_of_pairs :: "(string \<times> 'v) list \<Rightarrow> (string \<times> 'v) list" where
  "dict_of_pairs kvs = foldl (\<lambda>d kv. dict_setitem d (fst kv) (snd kv)) [] kvs"

primrec json_decode :: "json \<Rightarrow> pyval" where
  "json_decode JNull = PNone"
| "json_decode (JBool b) = PBool b"
| "json_decode (JInt i) = PInt i"
| "json_decode (JFloat r) = PFloat r"
| "json_decode (JStr s) = PStr s"
| "json_decode (JArr xs) = PList (map json_decode xs)"
| "json_decode (JObj kvs) = PDict (dict_of_pairs (map (map_prod id json_decode) kvs))"

text \<open>The encoder writes lists and tuples alike as arrays.\<close>

primrec json_encode :: "pyval \<Rightarrow> json" where
  "json_encode PNone = JNull"
| "json_encode (PBool b) = JBool b"
| "json_encode (PInt i) = JInt i"
| "json_encode (PFloat r) = JFloat r"
| "json_encode (PStr s) = JStr s"
| "json_encode (PList xs) = JArr (map json_encode xs)"
| "json_encode (PTuple xs) = JArr (map json_encode xs)"
| "json_encode (PDict kvs) = JObj (map (map_prod id json_encode) kvs)"

definition json_dumps :: "pyval \<Rightarrow> json_text" where
  "json_dumps v = Document (json_encode v)"

fun json_loads :: "json_text \<Rightarrow> py_error + pyval" where
  "json_loads Malformed = Inl JSONDecodeError"
| "json_loads (Document j) = Inr (json_decode j)"

text \<open>\<open>open(path)\<close> followed by \<open>json.load(f)\<close>: a missing file raises.\<close>

definition json_load :: "(string \<rightharpoonup> json_text) \<Rightarrow> string \<Rightarrow> py_error + pyval" where
  "json_load fs path =
     (case fs path of None \<Rightarrow> Inl FileNotFoundError | Some t \<Rightarrow> json_loads t)"

section \<open>Reading and writing JSON\<close>

text \<open>
  The two readers share their body in the source, copied line for line; each is
  transcribed on its own. The argument list of the constructor is evaluated left to
  right, then the coverage is read, then the two reclassification steps follow.
\<close>

definition edge_tuples :: "pyval list \<Rightarrow> py_error + pyval list" where
  "edge_tuples cs =
     traverse (\<lambda>c. err_bind (py_iter c) (\<lambda>es.
                 err_bind (traverse py_tuple es) (\<lambda>cm. Inr (PTuple cm)))) cs"

definition read_community_json :: "(string \<rightharpoonup> json_text) \<Rightarrow> string \<Rightarrow> py_error + clustering" where
  "read_community_json fs path =
     err_bind (json_load fs path) (\<lambda>coms.
     err_bind (py_getitem coms ''communities'') (\<lambda>cv.
     err_bind (py_iter cv) (\<lambda>entries.
     err_bind (traverse py_tuple entries) (\<lambda>cs.
     err_bind (py_getitem coms ''algorithm'') (\<lambda>alg.
     err_bind (py_getitem coms ''params'') (\<lambda>params.
     err_bind (py_getitem coms ''overlap'') (\<lambda>ov.
     err_bind (py_getitem coms ''coverage'') (\<lambda>cov.
     let nc = (new_NodeClustering cs PNone alg params ov)\<lparr>node_coverage := cov\<rparr> in
     err_bind (py_contains coms ''allocation_matrix'') (\<lambda>has_matrix.
     err_bind (if has_matrix
               then err_bind (py_getitem coms ''allocation_matrix'') (\<lambda>m.
                      Inr (nc\<lparr>py_class := FuzzyNodeClustering, allocation_matrix := Some m\<rparr>))
               else Inr nc) (\<lambda>nc.
     err_bind (py_first (PList (communities nc))) (\<lambda>c0.
     err_bind (py_first c0) (\<lambda>e0.
     if is_list e0
     then err_bind (edge_tuples (communities nc)) (\<lambda>cms.
            Inr (nc\<lparr>communities := cms, py_class := EdgeClustering\<rparr>))
     else Inr nc))))))))))))"

definition read_community_from_json_string :: "json_text \<Rightarrow> py_error + clustering" where
  "read_community_from_json_string json_repr =
     err_bind (json_loads json_repr) (\<lambda>coms.
     err_bind (py_getitem coms ''communities'') (\<lambda>cv.
     err_bind (py_iter cv) (\<lambda>entries.
     err_bind (traverse py_tuple entries) (\<lambda>cs.
     err_bind (py_getitem coms ''algorithm'') (\<lambda>alg.
     err_bind (py_getitem coms ''params'') (\<lambda>params.
     err_bind (py_getitem coms ''overlap'') (\<lambda>ov.
     err_bind (py_getitem coms ''coverage'') (\<lambda>cov.
     let nc = (new_NodeClustering cs PNone alg params ov)\<lparr>node_coverage := cov\<rparr> in
     err_bind (py_contains coms ''allocation_matrix'') (\<lambda>has_matrix.
     err_bind (if has_matrix
               then err_bind (py_getitem coms ''allocation_matrix'') (\<lambda>m.
                      Inr (nc\<lparr>py_class := FuzzyNodeClustering, allocation_matrix := Some m\<rparr>))
               else Inr nc) (\<lambda>nc.
     err_bind (py_first (PList (communities nc))) (\<lambda>c0.
     err_bind (py_first c0) (\<lambda>e0.
     if is_list e0
     then err_bind (edge_tuples (communities nc)) (\<lambda>cms.
            Inr (nc\<lparr>communities := cms, py_class := EdgeClustering\<rparr>))
     else Inr nc))))))))))))"

text \<open>
  The writer collects the five fields into a dict, adds the allocation matrix when the
  object has that attribute, and replaces the content of the file by the encoded dict.
\<close>

definition write_community_json ::
  "clustering \<Rightarrow> (string \<rightharpoonup> json_text) \<Rightarrow> string \<Rightarrow> (string \<rightharpoonup> json_text)" where
  "write_community_json cl fs path =
     (let partition = [(''communities'', PList (communities cl)),
                       (''algorithm'', method_name cl),
                       (''params'', method_parameters cl),
                       (''overlap'', overlap cl),
                       (''coverage'', node_coverage cl)];
          partition = (case allocation_matrix cl of
                         None \<Rightarrow> partition
                       | Some m \<Rightarrow> dict_setitem partition ''allocation_matrix'' m);
          js_dmp = json_dumps (PDict partition)
      in fs(path \<mapsto> js_dmp))"

section \<open>Reading and writing CSV\<close>

text \<open>
  A CSV file holds text: the string that Python reads from it in text mode. The
  functions \<open>str\<close>, \<open>str.join\<close>, \<open>str.rstrip\<close> and \<open>str.split\<close> and the iteration
  over the lines of a file are Python's own and are written out here.
\<close>

fun py_join :: "string \<Rightarrow> string list \<Rightarrow> string" where
  "py_join sep [] = []"
| "py_join sep [x] = x"
| "py_join sep (x # y # ys) = x @ sep @ py_join sep (y # ys)"

fun str_nat :: "nat \<Rightarrow> string" where
  "str_nat n =
     (if n < 10 then [''0123456789'' ! n]
      else str_nat (n div 10) @ [''0123456789'' ! (n mod 10)])"

declare str_nat.simps [simp del]

definition str_int :: "int \<Rightarrow> string" where
  "str_int i = (if i < 0 then CHR ''-'' # str_nat (nat (- i)) else str_nat (nat i))"

definition hex2 :: "nat \<Rightarrow> string" where
  "hex2 n = [''0123456789abcdef'' ! (n div 16), ''0123456789abcdef'' ! (n mod 16)]"

text \<open>
  \<open>repr\<close> of a string: double quotes when the string has a single quote and no double
  quote, single quotes otherwise; the quote and the backslash are escaped, tab, newline
  and carriage return have their letters, and every other code point that is not
  printable is written \<open>\xhh\<close>.
\<close>

definition repr_quote :: "string \<Rightarrow> char" where
  "repr_quote s =
     (if CHR 0x27 \<in> set s \<and> CHR 0x22 \<notin> set s then CHR 0x22 else CHR 0x27)"

definition repr_char :: "char \<Rightarrow> char \<Rightarrow> string" where
  "repr_char q c =
     (let n = (of_char c :: nat) in
      if c = q \<or> c = CHR 0x5C then [CHR 0x5C, c]
      else if c = CHR 0x09 then [CHR 0x5C, CHR ''t'']
      else if c = CHR 0x0A then [CHR 0x5C, CHR ''n'']
      else if c = CHR 0x0D then [CHR 0x5C, CHR ''r'']
      else if n < 32 \<or> (127 \<le> n \<and> n \<le> 160) \<or> n = 173 then [CHR 0x5C, CHR ''x''] @ hex2 n
      else [c])"

definition repr_str :: "string \<Rightarrow> string" where
  "repr_str s = (let q = repr_quote s in [q] @ concat (map (repr_char q) s) @ [q])"

primrec py_repr :: "pyval \<Rightarrow> string" where
  "py_repr PNone = ''None''"
| "py_repr (PBool b) = (if b then ''True'' else ''False'')"
| "py_repr (PInt i) = str_int i"
| "py_repr (PFloat r) = r"
| "py_repr (PStr s) = repr_str s"
| "py_repr (PList xs) = ''['' @ py_join '', '' (map py_repr xs) @ '']''"
| "py_repr (PTuple xs) =
     (let rs = map py_repr xs in
      if length rs = 1 then ''('' @ hd rs @ '',)'' else ''('' @ py_join '', '' rs @ '')'')"
| "py_repr (PDict kvs) =
     ''{'' @ py_join '', '' (map (\<lambda>kr. repr_str (fst kr) @ '': '' @ snd kr)
                                   (map (map_prod id py_repr) kvs)) @ ''}''"

text \<open>\<open>str(x)\<close>: a string is itself, every other value prints as its \<open>repr\<close>.\<close>

fun py_str :: "pyval \<Rightarrow> string" where
  "py_str (PStr s) = s"
| "py_str v = py_repr v"

text \<open>
  The loop of \<open>write_community_csv\<close>: one line per community, the items joined by the
  delimiter. A community that cannot be iterated raises; the lines written before it
  stay in the file, so the text written so far is returned with the exception.
\<close>

fun write_rows :: "string \<Rightarrow> pyval list \<Rightarrow> string \<Rightarrow> string \<times> py_error option" where
  "write_rows delimiter [] out = (out, None)"
| "write_rows delimiter (community # rest) out =
     (case py_iter community of
        Inl e \<Rightarrow> (out, Some e)
      | Inr items \<Rightarrow>
          (let res = py_join delimiter (map py_str items)
           in write_rows delimiter rest (out @ res @ [CHR 0x0A])))"

definition write_community_csv ::
  "clustering \<Rightarrow> (string \<rightharpoonup> string) \<Rightarrow> string \<Rightarrow> string
     \<Rightarrow> (string \<rightharpoonup> string) \<times> py_error option" where
  "write_community_csv cl fs path delimiter =
     (let r = write_rows delimiter (communities cl) [] in (fs(path \<mapsto> fst r), snd r))"

text \<open>
  Iterating over a file yields its lines, each with its newline; text after the last
  newline is a line too.
\<close>

fun file_rows :: "string \<Rightarrow> string \<Rightarrow> string list" where
  "file_rows cur [] = (if cur = [] then [] else [cur])"
| "file_rows cur (c # cs) =
     (if c = CHR 0x0A then (cur @ [c]) # file_rows [] cs else file_rows (cur @ [c]) cs)"

text \<open>\<open>str.rstrip()\<close> removes every trailing white-space character, not only the newline.\<close>

definition py_isspace :: "char \<Rightarrow> bool" where
  "py_isspace c =
     (let n = (of_char c :: nat) in
      (9 \<le> n \<and> n \<le> 13) \<or> (28 \<le> n \<and> n \<le> 32) \<or> n = 133 \<or> n = 160)"

definition rstrip :: "string \<Rightarrow> string" where
  "rstrip s = rev (dropWhile py_isspace (rev s))"

text \<open>
  \<open>str.split(sep)\<close> cuts at every occurrence of the separator, found from left to
  right, and keeps empty pieces; an empty separator raises \<open>ValueError\<close>.
\<close>

function split_from :: "string \<Rightarrow> string \<Rightarrow> string \<Rightarrow> string list" where
  "split_from sep cur [] = [cur]"
| "split_from sep cur (c # cs) =
     (if sep \<noteq> [] \<and> take (length sep) (c # cs) = sep
      then cur # split_from sep [] (drop (length sep) (c # cs))
      else split_from sep (cur @ [c]) cs)"
  by pat_completeness auto
termination
  by (relation "measure (\<lambda>(sep, cur, s). length s)") auto

definition py_split :: "string \<Rightarrow> string \<Rightarrow> py_error + string list" where
  "py_split s sep = (if sep = [] then Inl ValueError else Inr (split_from sep [] s))"

text \<open>The default \<open>nodetype=str\<close> keeps each token as a string.\<close>

definition nodetype_str :: "string \<Rightarrow> py_error + pyval" where
  "nodetype_str tok = Inr (PStr tok)"

text \<open>
  Modelled from the spec: the call \<open>NodeClustering(communities, None, "")\<close> leaves the
  constructor's last two arguments out; the fields they fill stay unset.
\<close>

definition read_community_csv ::
  "(string \<rightharpoonup> string) \<Rightarrow> string \<Rightarrow> string \<Rightarrow> (string \<Rightarrow> py_error + pyval)
     \<Rightarrow> py_error + clustering" where
  "read_community_csv fs path delimiter nodetype =
     (case fs path of
        None \<Rightarrow> Inl FileNotFoundError
      | Some text \<Rightarrow>
          err_bind (traverse (\<lambda>row.
                      err_bind (py_split (rstrip row) delimiter) (\<lambda>tokens.
                      err_bind (traverse nodetype tokens) (\<lambda>community.
                      Inr (PTuple community)))) (file_rows [] text)) (\<lambda>cs.
          Inr (new_NodeClustering cs PNone (PStr []) PNone PNone)))"

text \<open>The keys that both readers subscript, in the order in which they do.\<close>

definition required_keys :: "string list" where
  "required_keys = [''communities'', ''algorithm'', ''params'', ''overlap'', ''coverage'']"

section \<open>Basic facts\<close>

lemma err_bind_Inl [simp]: "err_bind (Inl e) f = Inl e"
  by (simp add: err_bind_def)

lemma err_bind_Inr [simp]: "err_bind (Inr x) f = f x"
  by (simp add: err_bind_def)

text \<open>The file reader is the string reader applied to the content of the file.\<close>

lemma read_community_json_unfold:
  "read_community_json fs path =
     (case fs path of None \<Rightarrow> Inl FileNotFoundError
      | Some t \<Rightarrow> read_community_from_json_string t)"
  by (simp add: read_community_json_def read_community_from_json_string_def json_load_def
      split: option.split)

lemma read_community_json_upd [simp]:
  "read_community_json (fs(path \<mapsto> t)) path = read_community_from_json_string t"
  by (simp add: read_community_json_unfold)

lemma dict_setitem_keys:
  "map fst (dict_setitem d k v) = (if k \<in> fst ` set d then map fst d else map fst d @ [k])"
  by (induction d) (auto simp: dict_setitem_def)

lemma dict_setitem_distinct:
  "distinct (map fst d) \<Longrightarrow> distinct (map fst (dict_setitem d k v))"
  by (auto simp: dict_setitem_keys)

lemma foldl_setitem_distinct:
  "distinct (map fst acc) \<Longrightarrow>
   distinct (map fst (foldl (\<lambda>d kv. dict_setitem d (fst kv) (snd kv)) acc kvs))"
  by (induction kvs arbitrary: acc) (simp_all add: dict_setitem_distinct)

lemma dict_of_pairs_distinct: "distinct (map fst (dict_of_pairs kvs))"
  by (simp add: dict_of_pairs_def foldl_setitem_distinct)

lemma json_loads_dict_distinct:
  assumes "json_loads t = Inr (PDict d)"
  shows "distinct (map fst d)"
proof (cases t)
  case Malformed
  with assms show ?thesis by simp
next
  case (Document j)
  with assms have "json_decode j = PDict d" by simp
  then show ?thesis
    by (cases j) (auto simp: dict_of_pairs_distinct)
qed

text \<open>An object without repeated keys decodes to the dict of its decoded fields, in order.\<close>

lemma foldl_setitem_fresh:
  "distinct (map fst (acc @ kvs)) \<Longrightarrow>
   foldl (\<lambda>d kv. dict_setitem d (fst kv) (snd kv)) acc kvs = acc @ kvs"
proof (induction kvs arbitrary: acc)
  case Nil
  then show ?case by simp
next
  case (Cons kv kvs)
  from Cons.prems have fresh: "fst kv \<notin> fst ` set acc"
    by auto
  from Cons.prems have "distinct (map fst ((acc @ [kv]) @ kvs))"
    by simp
  then have "foldl (\<lambda>d kv. dict_setitem d (fst kv) (snd kv)) (acc @ [kv]) kvs
      = (acc @ [kv]) @ kvs"
    by (rule Cons.IH)
  with fresh show ?case
    by (simp add: dict_setitem_def)
qed

lemma dict_of_pairs_distinct_keys:
  "distinct (map fst kvs) \<Longrightarrow> dict_of_pairs kvs = kvs"
  using foldl_setitem_fresh [of "[]" kvs] by (simp add: dict_of_pairs_def)

lemma json_decode_object_distinct:
  "distinct (map fst flds) \<Longrightarrow>
   json_decode (JObj flds) = PDict (map (map_prod id json_decode) flds)"
  by (simp add: dict_of_pairs_distinct_keys comp_def)

lemma permuted_dict_same_lookup:
  assumes "distinct (map fst d)" and "mset d' = mset d"
  shows "map_of d' = map_of d"
proof -
  have "mset (map fst d') = mset (map fst d)"
    using assms(2) by (metis mset_map)
  then have "distinct (map fst d')"
    using assms(1) by (metis mset_eq_imp_distinct_iff)
  moreover have "set d' = set d"
    using assms(2) by (metis mset_eq_setD)
  ultimately show ?thesis
    using assms(1) by (simp add: map_of_inject_set)
qed

lemma read_depends_on_lookup:
  assumes "json_loads t = Inr (PDict d)" and "json_loads t' = Inr (PDict d')"
    and "map_of d' = map_of d"
  shows "read_community_from_json_string t' = read_community_from_json_string t"
proof -
  have g: "py_getitem (PDict d') k = py_getitem (PDict d) k" for k
    using assms(3) by simp
  have c: "py_contains (PDict d') k = py_contains (PDict d) k" for k
    using assms(3) by simp
  show ?thesis
    unfolding read_community_from_json_string_def assms(1,2) err_bind_Inr g c ..
qed

lemma traverse_py_tuple_lists:
  "traverse py_tuple (map PList css) = Inr (map PTuple css)"
  by (induction css) (simp_all add: py_tuple_def)

lemma edge_tuples_lists:
  "edge_tuples (map (\<lambda>c. PTuple (map PList c)) ess) = Inr (map (\<lambda>c. PTuple (map PTuple c)) ess)"
  by (induction ess) (simp_all add: edge_tuples_def traverse_py_tuple_lists)

lemma read_scalar_first:
  assumes "json_loads t = Inr (PDict d)"
    and "map_of d ''communities'' = Some (PList (map PList ((x # xs) # rest)))"
    and "\<not> is_list x"
    and "map_of d ''algorithm'' = Some alg"
    and "map_of d ''params'' = Some params"
    and "map_of d ''overlap'' = Some ov"
    and "map_of d ''coverage'' = Some cov"
  shows "read_community_from_json_string t =
     Inr \<lparr>py_class = (if map_of d ''allocation_matrix'' = None then NodeClustering
                      else FuzzyNodeClustering),
          communities = map PTuple ((x # xs) # rest), graph = PNone, method_name = alg,
          method_parameters = params, overlap = ov, node_coverage = cov,
          allocation_matrix = map_of d ''allocation_matrix''\<rparr>"
  using assms
  by (auto simp: read_community_from_json_string_def new_NodeClustering_def
      traverse_py_tuple_lists py_tuple_def)

lemma read_array_first:
  assumes "json_loads t = Inr (PDict d)"
    and "map_of d ''communities'' =
           Some (PList (map (\<lambda>c. PList (map PList c)) ((e # es) # rest)))"
    and "map_of d ''algorithm'' = Some alg"
    and "map_of d ''params'' = Some params"
    and "map_of d ''overlap'' = Some ov"
    and "map_of d ''coverage'' = Some cov"
  shows "read_community_from_json_string t =
     Inr \<lparr>py_class = EdgeClustering,
          communities = map (\<lambda>c. PTuple (map PTuple c)) ((e # es) # rest),
          graph = PNone, method_name = alg,
          method_parameters = params, overlap = ov, node_coverage = cov,
          allocation_matrix = map_of d ''allocation_matrix''\<rparr>"
proof -
  let ?ess = "(e # es) # rest"
  have conv: "traverse py_tuple (map (\<lambda>c. PList (map PList c)) ?ess)
      = Inr (map (\<lambda>c. PTuple (map PList c)) ?ess)"
    using traverse_py_tuple_lists [of "map (map PList) ?ess"]
    by (simp add: comp_def)
  have first: "py_first (PList (map (\<lambda>c. PTuple (map PList c)) ?ess))
      = Inr (PTuple (map PList (e # es)))"
    by simp
  have second: "py_first (PTuple (map PList (e # es))) = Inr (PList e)"
    by simp
  note edges = edge_tuples_lists [of ?ess]
  show ?thesis
    using assms(1,3-)
    by (cases "map_of d ''allocation_matrix''")
       (simp_all add: read_community_from_json_string_def new_NodeClustering_def
          assms(2) conv first second edges del: traverse.simps list.map)
qed

text \<open>Iteration and conversion to a tuple raise nothing but \<open>TypeError\<close>.\<close>

lemma py_iter_error: "py_iter v = Inl e \<Longrightarrow> e = TypeError"
  by (cases v) simp_all

lemma py_tuple_error: "py_tuple v = Inl e \<Longrightarrow> e = TypeError"
  by (cases v) (simp_all add: py_tuple_def)

lemma traverse_py_tuple_error: "traverse py_tuple vs = Inl e \<Longrightarrow> e = TypeError"
proof (induction vs)
  case Nil
  then show ?case by simp
next
  case (Cons v vs)
  then show ?case
    by (cases "py_tuple v"; cases "traverse py_tuple vs") (auto dest: py_tuple_error)
qed

text \<open>Facts about the lines of a file.\<close>

lemma traverse_total: "traverse (\<lambda>x. Inr (h x)) xs = Inr (map h xs)"
  by (induction xs) simp_all

lemma concat_file_rows: "concat (file_rows cur s) = cur @ s"
  by (induction s arbitrary: cur) simp_all

lemma length_file_rows:
  "length (file_rows cur s) =
     count_list s (CHR 0x0A) +
     (if s = [] then (if cur = [] then 0 else 1)
      else if last s = CHR 0x0A then 0 else 1)"
  by (induction s arbitrary: cur) auto

lemma file_rows_lines:
  "CHR 0x0A \<notin> set cur \<Longrightarrow>
   list_all (\<lambda>row. row \<noteq> [] \<and> CHR 0x0A \<notin> set (butlast row)) (file_rows cur s)"
  by (induction s arbitrary: cur) (auto simp: butlast_append dest: in_set_butlastD)

lemmas json_eval = read_community_from_json_string_def dict_of_pairs_def dict_setitem_def
  new_NodeClustering_def py_tuple_def edge_tuples_def

lemmas csv_eval = read_community_csv_def write_community_csv_def py_split_def rstrip_def
  py_isspace_def new_NodeClustering_def nodetype_str_def

section \<open>Round trip through a JSON file\<close>

text \<open>
  C1. A clustering object without allocation matrix whose communities are
  \<open>[[1, 2], [3]]\<close>, whose method name is \<open>"louvain"\<close>, whose parameters are the empty
  dict, whose overlap is \<open>False\<close> and whose coverage is \<open>0.9\<close> is written by
  \<open>write_community_json\<close>, whatever the path and the other files. Reading the file
  back with \<open>read_community_json\<close> returns an object of class \<open>NodeClustering\<close>
  with the communities \<open>[(1, 2), (3,)]\<close> and the same method name, parameters, overlap
  and coverage.
\<close>

theorem json_roundtrip_plain:
  "read_community_json
     (write_community_json
        \<lparr>py_class = cls,
         communities = [PList [PInt 1, PInt 2], PList [PInt 3]],
         graph = g, method_name = PStr ''louvain'', method_parameters = PDict [],
         overlap = PBool False, node_coverage = PFloat ''0.9'',
         allocation_matrix = None\<rparr> fs path) path
   = Inr \<lparr>py_class = NodeClustering,
          communities = [PTuple [PInt 1, PInt 2], PTuple [PInt 3]],
          graph = PNone, method_name = PStr ''louvain'', method_parameters = PDict [],
          overlap = PBool False, node_coverage = PFloat ''0.9'',
          allocation_matrix = None\<rparr>"
  by (simp add: write_community_json_def json_dumps_def json_eval)

section \<open>Empty communities\<close>

text \<open>
  C2. The specification says that a document whose \<open>communities\<close> is the empty array fails
  with a schema error and not with an indexing fault. The readers have no check of their
  own: for every document that is an object and maps \<open>communities\<close> to the empty
  array, both readers raise and return no object; the exception is the \<open>KeyError\<close>
  of the first of \<open>algorithm\<close>, \<open>params\<close>, \<open>overlap\<close>, \<open>coverage\<close> that is
  missing, and \<open>IndexError\<close>, raised by \<open>nc.communities[0]\<close>, when all four are
  present.
\<close>

theorem empty_communities_raises:
  assumes "json_loads t = Inr (PDict d)"
    and "map_of d ''communities'' = Some (PList [])"
  shows "read_community_from_json_string t =
           Inl (case filter (\<lambda>k. map_of d k = None)
                       [''algorithm'', ''params'', ''overlap'', ''coverage''] of
                  [] \<Rightarrow> IndexError
                | k # ks \<Rightarrow> KeyError (PStr k))
       \<and> read_community_json (fs(path \<mapsto> t)) path = read_community_from_json_string t"
  using assms
  by (cases "map_of d ''algorithm''"; cases "map_of d ''params''";
      cases "map_of d ''overlap''"; cases "map_of d ''coverage''";
      cases "map_of d ''allocation_matrix''")
     (simp_all add: read_community_from_json_string_def new_NodeClustering_def)

text \<open>
  The theorem at a document with all five keys, read from a string and from a file.
\<close>

theorem empty_communities_raises_witness:
  "json_loads (Document (JObj [(''communities'', JArr []), (''algorithm'', JStr ''louvain''), (''params'', JObj []), (''overlap'', JBool False), (''coverage'', JFloat ''0.9'')])) = Inr (PDict [(''communities'', PList []), (''algorithm'', PStr ''louvain''), (''params'', PDict []), (''overlap'', PBool False), (''coverage'', PFloat ''0.9'')])
   \<and> map_of [(''communities'', PList []), (''algorithm'', PStr ''louvain''), (''params'', PDict []), (''overlap'', PBool False), (''coverage'', PFloat ''0.9'')] ''communities'' = Some (PList [])
   \<and> read_community_from_json_string (Document (JObj [(''communities'', JArr []), (''algorithm'', JStr ''louvain''), (''params'', JObj []), (''overlap'', JBool False), (''coverage'', JFloat ''0.9'')])) = Inl IndexError
   \<and> read_community_json [''communities.json'' \<mapsto> Document (JObj [(''communities'', JArr []), (''algorithm'', JStr ''louvain''), (''params'', JObj []), (''overlap'', JBool False), (''coverage'', JFloat ''0.9'')])] ''communities.json'' = Inl IndexError"
proof -
  have h1: "json_loads (Document (JObj [(''communities'', JArr []), (''algorithm'', JStr ''louvain''), (''params'', JObj []), (''overlap'', JBool False), (''coverage'', JFloat ''0.9'')])) = Inr (PDict [(''communities'', PList []), (''algorithm'', PStr ''louvain''), (''params'', PDict []), (''overlap'', PBool False), (''coverage'', PFloat ''0.9'')])"
    by (simp add: dict_of_pairs_def dict_setitem_def)
  have h2: "map_of [(''communities'', PList []), (''algorithm'', PStr ''louvain''), (''params'', PDict []), (''overlap'', PBool False), (''coverage'', PFloat ''0.9'')] ''communities'' = Some (PList [])"
    by simp
  show ?thesis
    using empty_communities_raises [where fs = Map.empty and path = "''communities.json''", OF h1 h2] h1 h2
    by simp
qed

text \<open>
  The sentence of the specification fails here: a document with all required keys and no community raises \<open>IndexError\<close>.
\<close>

theorem empty_communities_counterexample:
  "read_community_json [''empty.json'' \<mapsto> Document (JObj [(''communities'', JArr []), (''algorithm'', JStr ''label_propagation''), (''params'', JObj [(''k'', JInt 3)]), (''overlap'', JBool True), (''coverage'', JFloat ''1.0'')])] ''empty.json'' = Inl IndexError
   \<and> read_community_from_json_string (Document (JObj [(''communities'', JArr []), (''algorithm'', JStr ''label_propagation''), (''params'', JObj [(''k'', JInt 3)]), (''overlap'', JBool True), (''coverage'', JFloat ''1.0'')])) = Inl IndexError"
  by (simp add: json_eval)

section \<open>Round trip through a CSV file\<close>

text \<open>
  C3. A clustering object whose communities are \<open>[("1", "2"), ("3",)]\<close> is written
  by \<open>write_community_csv\<close> with the delimiter \<open>","\<close> without an exception,
  whatever its other fields, the path and the other files; \<open>read_community_csv\<close> on
  the file written, with the same delimiter and \<open>nodetype=str\<close>, returns an object
  whose communities are \<open>[("1", "2"), ("3",)]\<close>.
\<close>

theorem csv_roundtrip_str:
  "snd (write_community_csv
          (cl\<lparr>communities := [PTuple [PStr ''1'', PStr ''2''], PTuple [PStr ''3'']]\<rparr>)
          fs path '','') = None
   \<and> read_community_csv
       (fst (write_community_csv
               (cl\<lparr>communities := [PTuple [PStr ''1'', PStr ''2''], PTuple [PStr ''3'']]\<rparr>)
               fs path '','')) path '','' nodetype_str
     = Inr (new_NodeClustering [PTuple [PStr ''1'', PStr ''2''], PTuple [PStr ''3'']]
              PNone (PStr []) PNone PNone)"
  by (simp add: csv_eval)

section \<open>Edge clustering\<close>

text \<open>
  C4. The specification says that every document whose first community starts with an array is
  read as an \<open>EdgeClustering\<close> whose community elements are all 2-element tuples.
  The reader turns each element into a tuple of the same length, whatever that length is.
  When every community of the document is an array of 2-element arrays, and the first
  community is not empty, \<open>read_community_json\<close> returns an object of class
  \<open>EdgeClustering\<close> whose communities are the tuples of the 2-element tuples of the
  document, in order, with the metadata of the document.
\<close>

theorem edge_clustering_detected:
  assumes "json_loads t = Inr (PDict d)"
    and "map_of d ''communities'' =
           Some (PList (map (\<lambda>c. PList (map (\<lambda>ab. PList [fst ab, snd ab]) c))
                            ((e # es) # rest)))"
    and "map_of d ''algorithm'' = Some alg"
    and "map_of d ''params'' = Some params"
    and "map_of d ''overlap'' = Some ov"
    and "map_of d ''coverage'' = Some cov"
  shows "read_community_json (fs(path \<mapsto> t)) path =
     Inr \<lparr>py_class = EdgeClustering,
          communities = map (\<lambda>c. PTuple (map (\<lambda>ab. PTuple [fst ab, snd ab]) c))
                            ((e # es) # rest),
          graph = PNone, method_name = alg,
          method_parameters = params, overlap = ov, node_coverage = cov,
          allocation_matrix = map_of d ''allocation_matrix''\<rparr>"
  using assms(2)
    read_array_first [OF assms(1) _ assms(3-6),
      of "[fst e, snd e]" "map (\<lambda>ab. [fst ab, snd ab]) es"
         "map (map (\<lambda>ab. [fst ab, snd ab])) rest"]
  by (simp add: comp_def)

text \<open>
  The theorem at the document with the communities \<open>[[[1, 2], [2, 3]]]\<close>.
\<close>

theorem edge_clustering_detected_witness:
  "json_loads (Document (JObj [(''communities'', JArr [JArr [JArr [JInt 1, JInt 2], JArr [JInt 2, JInt 3]]]), (''algorithm'', JStr ''hierarchical_link_community''), (''params'', JObj []), (''overlap'', JBool False), (''coverage'', JFloat ''1.0'')])) = Inr (PDict [(''communities'', PList [PList [PList [PInt 1, PInt 2], PList [PInt 2, PInt 3]]]), (''algorithm'', PStr ''hierarchical_link_community''), (''params'', PDict []), (''overlap'', PBool False), (''coverage'', PFloat ''1.0'')])
   \<and> map_of [(''communities'', PList [PList [PList [PInt 1, PInt 2], PList [PInt 2, PInt 3]]]), (''algorithm'', PStr ''hierarchical_link_community''), (''params'', PDict []), (''overlap'', PBool False), (''coverage'', PFloat ''1.0'')] ''communities'' = Some (PList (map (\<lambda>c. PList (map (\<lambda>ab. PList [fst ab, snd ab]) c)) (((PInt 1, PInt 2) # [(PInt 2, PInt 3)]) # [])))
   \<and> map_of [(''communities'', PList [PList [PList [PInt 1, PInt 2], PList [PInt 2, PInt 3]]]), (''algorithm'', PStr ''hierarchical_link_community''), (''params'', PDict []), (''overlap'', PBool False), (''coverage'', PFloat ''1.0'')] ''algorithm'' = Some (PStr ''hierarchical_link_community'')
   \<and> map_of [(''communities'', PList [PList [PList [PInt 1, PInt 2], PList [PInt 2, PInt 3]]]), (''algorithm'', PStr ''hierarchical_link_community''), (''params'', PDict []), (''overlap'', PBool False), (''coverage'', PFloat ''1.0'')] ''params'' = Some (PDict [])
   \<and> map_of [(''communities'', PList [PList [PList [PInt 1, PInt 2], PList [PInt 2, PInt 3]]]), (''algorithm'', PStr ''hierarchical_link_community''), (''params'', PDict []), (''overlap'', PBool False), (''coverage'', PFloat ''1.0'')] ''overlap'' = Some (PBool False)
   \<and> map_of [(''communities'', PList [PList [PList [PInt 1, PInt 2], PList [PInt 2, PInt 3]]]), (''algorithm'', PStr ''hierarchical_link_community''), (''params'', PDict []), (''overlap'', PBool False), (''coverage'', PFloat ''1.0'')] ''coverage'' = Some (PFloat ''1.0'')
   \<and> read_community_json [''communities.json'' \<mapsto> Document (JObj [(''communities'', JArr [JArr [JArr [JInt 1, JInt 2], JArr [JInt 2, JInt 3]]]), (''algorithm'', JStr ''hierarchical_link_community''), (''params'', JObj []), (''overlap'', JBool False), (''coverage'', JFloat ''1.0'')])] ''communities.json'' = Inr \<lparr>py_class = EdgeClustering, communities = [PTuple [PTuple [PInt 1, PInt 2], PTuple [PInt 2, PInt 3]]], graph = PNone, method_name = PStr ''hierarchical_link_community'', method_parameters = PDict [], overlap = PBool False, node_coverage = PFloat ''1.0'', allocation_matrix = None\<rparr>"
proof -
  have h1: "json_loads (Document (JObj [(''communities'', JArr [JArr [JArr [JInt 1, JInt 2], JArr [JInt 2, JInt 3]]]), (''algorithm'', JStr ''hierarchical_link_community''), (''params'', JObj []), (''overlap'', JBool False), (''coverage'', JFloat ''1.0'')])) = Inr (PDict [(''communities'', PList [PList [PList [PInt 1, PInt 2], PList [PInt 2, PInt 3]]]), (''algorithm'', PStr ''hierarchical_link_community''), (''params'', PDict []), (''overlap'', PBool False), (''coverage'', PFloat ''1.0'')])"
    by (simp add: dict_of_pairs_def dict_setitem_def)
  have h2: "map_of [(''communities'', PList [PList [PList [PInt 1, PInt 2], PList [PInt 2, PInt 3]]]), (''algorithm'', PStr ''hierarchical_link_community''), (''params'', PDict []), (''overlap'', PBool False), (''coverage'', PFloat ''1.0'')] ''communities'' = Some (PList (map (\<lambda>c. PList (map (\<lambda>ab. PList [fst ab, snd ab]) c)) (((PInt 1, PInt 2) # [(PInt 2, PInt 3)]) # [])))"
    by simp
  have h3: "map_of [(''communities'', PList [PList [PList [PInt 1, PInt 2], PList [PInt 2, PInt 3]]]), (''algorithm'', PStr ''hierarchical_link_community''), (''params'', PDict []), (''overlap'', PBool False), (''coverage'', PFloat ''1.0'')] ''algorithm'' = Some (PStr ''hierarchical_link_community'')"
    by simp
  have h4: "map_of [(''communities'', PList [PList [PList [PInt 1, PInt 2], PList [PInt 2, PInt 3]]]), (''algorithm'', PStr ''hierarchical_link_community''), (''params'', PDict []), (''overlap'', PBool False), (''coverage'', PFloat ''1.0'')] ''params'' = Some (PDict [])"
    by simp
  have h5: "map_of [(''communities'', PList [PList [PList [PInt 1, PInt 2], PList [PInt 2, PInt 3]]]), (''algorithm'', PStr ''hierarchical_link_community''), (''params'', PDict []), (''overlap'', PBool False), (''coverage'', PFloat ''1.0'')] ''overlap'' = Some (PBool False)"
    by simp
  have h6: "map_of [(''communities'', PList [PList [PList [PInt 1, PInt 2], PList [PInt 2, PInt 3]]]), (''algorithm'', PStr ''hierarchical_link_community''), (''params'', PDict []), (''overlap'', PBool False), (''coverage'', PFloat ''1.0'')] ''coverage'' = Some (PFloat ''1.0'')"
    by simp
  show ?thesis
    using edge_clustering_detected [where fs = Map.empty and path = "''communities.json''", OF h1 h2 h3 h4 h5 h6] h1 h2 h3 h4 h5 h6
    by simp
qed

text \<open>
  The sentence of the specification fails here: a 3-element array in the first community comes back as a 3-element tuple.
\<close>

theorem edge_triple_counterexample:
  "read_community_json [''edges.json'' \<mapsto> Document (JObj [(''communities'', JArr [JArr [JArr [JInt 1, JInt 2], JArr [JInt 2, JInt 3, JInt 4]]]), (''algorithm'', JStr ''hierarchical_link_community''), (''params'', JObj []), (''overlap'', JBool False), (''coverage'', JFloat ''1.0'')])] ''edges.json''
   = Inr \<lparr>py_class = EdgeClustering, communities = [PTuple [PTuple [PInt 1, PInt 2], PTuple [PInt 2, PInt 3, PInt 4]]], graph = PNone, method_name = PStr ''hierarchical_link_community'', method_parameters = PDict [], overlap = PBool False, node_coverage = PFloat ''1.0'', allocation_matrix = None\<rparr>"
  by (simp add: json_eval)

section \<open>A document with an allocation matrix and edges\<close>

text \<open>
  C5. The specification says that a document with the key \<open>allocation_matrix\<close> whose first
  community starts with an array is read as an object flagged both as fuzzy and as
  \<open>EdgeClustering\<close>. An object has one class, and the second reclassification
  overwrites the first. When every community of the document is an array of arrays and
  the first community is not empty, \<open>read_community_json\<close> returns an object of
  class \<open>EdgeClustering\<close>, not \<open>FuzzyNodeClustering\<close>, that carries the allocation
  matrix of the document as an attribute; its communities are the tuples of the tuples
  of the document.
\<close>

theorem fuzzy_edge_document:
  assumes "json_loads t = Inr (PDict d)"
    and "map_of d ''communities'' =
           Some (PList (map (\<lambda>c. PList (map PList c)) ((e # es) # rest)))"
    and "map_of d ''algorithm'' = Some alg"
    and "map_of d ''params'' = Some params"
    and "map_of d ''overlap'' = Some ov"
    and "map_of d ''coverage'' = Some cov"
    and "map_of d ''allocation_matrix'' = Some m"
  shows "read_community_json (fs(path \<mapsto> t)) path =
     Inr \<lparr>py_class = EdgeClustering,
          communities = map (\<lambda>c. PTuple (map PTuple c)) ((e # es) # rest),
          graph = PNone, method_name = alg,
          method_parameters = params, overlap = ov, node_coverage = cov,
          allocation_matrix = Some m\<rparr>"
  using read_array_first [OF assms(1-6)] assms(7) by simp

text \<open>
  The theorem at a document with two communities of edges and an allocation matrix.
\<close>

theorem fuzzy_edge_document_witness:
  "json_loads (Document (JObj [(''communities'', JArr [JArr [JArr [JInt 1, JInt 2], JArr [JInt 2, JInt 3]], JArr [JArr [JInt 3, JInt 4]]]), (''algorithm'', JStr ''fuzzy_links''), (''params'', JObj []), (''overlap'', JBool True), (''coverage'', JFloat ''1.0''), (''allocation_matrix'', JObj [(''1'', JArr [JFloat ''0.5'', JFloat ''0.5''])])])) = Inr (PDict [(''communities'', PList [PList [PList [PInt 1, PInt 2], PList [PInt 2, PInt 3]], PList [PList [PInt 3, PInt 4]]]), (''algorithm'', PStr ''fuzzy_links''), (''params'', PDict []), (''overlap'', PBool True), (''coverage'', PFloat ''1.0''), (''allocation_matrix'', PDict [(''1'', PList [PFloat ''0.5'', PFloat ''0.5''])])])
   \<and> map_of [(''communities'', PList [PList [PList [PInt 1, PInt 2], PList [PInt 2, PInt 3]], PList [PList [PInt 3, PInt 4]]]), (''algorithm'', PStr ''fuzzy_links''), (''params'', PDict []), (''overlap'', PBool True), (''coverage'', PFloat ''1.0''), (''allocation_matrix'', PDict [(''1'', PList [PFloat ''0.5'', PFloat ''0.5''])])] ''communities'' = Some (PList (map (\<lambda>c. PList (map PList c)) (([PInt 1, PInt 2] # [[PInt 2, PInt 3]]) # [[[PInt 3, PInt 4]]])))
   \<and> map_of [(''communities'', PList [PList [PList [PInt 1, PInt 2], PList [PInt 2, PInt 3]], PList [PList [PInt 3, PInt 4]]]), (''algorithm'', PStr ''fuzzy_links''), (''params'', PDict []), (''overlap'', PBool True), (''coverage'', PFloat ''1.0''), (''allocation_matrix'', PDict [(''1'', PList [PFloat ''0.5'', PFloat ''0.5''])])] ''algorithm'' = Some (PStr ''fuzzy_links'')
   \<and> map_of [(''communities'', PList [PList [PList [PInt 1, PInt 2], PList [PInt 2, PInt 3]], PList [PList [PInt 3, PInt 4]]]), (''algorithm'', PStr ''fuzzy_links''), (''params'', PDict []), (''overlap'', PBool True), (''coverage'', PFloat ''1.0''), (''allocation_matrix'', PDict [(''1'', PList [PFloat ''0.5'', PFloat ''0.5''])])] ''params'' = Some (PDict [])
   \<and> map_of [(''communities'', PList [PList [PList [PInt 1, PInt 2], PList [PInt 2, PInt 3]], PList [PList [PInt 3, PInt 4]]]), (''algorithm'', PStr ''fuzzy_links''), (''params'', PDict []), (''overlap'', PBool True), (''coverage'', PFloat ''1.0''), (''allocation_matrix'', PDict [(''1'', PList [PFloat ''0.5'', PFloat ''0.5''])])] ''overlap'' = Some (PBool True)
   \<and> map_of [(''communities'', PList [PList [PList [PInt 1, PInt 2], PList [PInt 2, PInt 3]], PList [PList [PInt 3, PInt 4]]]), (''algorithm'', PStr ''fuzzy_links''), (''params'', PDict []), (''overlap'', PBool True), (''coverage'', PFloat ''1.0''), (''allocation_matrix'', PDict [(''1'', PList [PFloat ''0.5'', PFloat ''0.5''])])] ''coverage'' = Some (PFloat ''1.0'')
   \<and> map_of [(''communities'', PList [PList [PList [PInt 1, PInt 2], PList [PInt 2, PInt 3]], PList [PList [PInt 3, PInt 4]]]), (''algorithm'', PStr ''fuzzy_links''), (''params'', PDict []), (''overlap'', PBool True), (''coverage'', PFloat ''1.0''), (''allocation_matrix'', PDict [(''1'', PList [PFloat ''0.5'', PFloat ''0.5''])])] ''allocation_matrix'' = Some (PDict [(''1'', PList [PFloat ''0.5'', PFloat ''0.5''])])
   \<and> read_community_json [''communities.json'' \<mapsto> Document (JObj [(''communities'', JArr [JArr [JArr [JInt 1, JInt 2], JArr [JInt 2, JInt 3]], JArr [JArr [JInt 3, JInt 4]]]), (''algorithm'', JStr ''fuzzy_links''), (''params'', JObj []), (''overlap'', JBool True), (''coverage'', JFloat ''1.0''), (''allocation_matrix'', JObj [(''1'', JArr [JFloat ''0.5'', JFloat ''0.5''])])])] ''communities.json'' = Inr \<lparr>py_class = EdgeClustering, communities = [PTuple [PTuple [PInt 1, PInt 2], PTuple [PInt 2, PInt 3]], PTuple [PTuple [PInt 3, PInt 4]]], graph = PNone, method_name = PStr ''fuzzy_links'', method_parameters = PDict [], overlap = PBool True, node_coverage = PFloat ''1.0'', allocation_matrix = Some (PDict [(''1'', PList [PFloat ''0.5'', PFloat ''0.5''])])\<rparr>"
proof -
  have h1: "json_loads (Document (JObj [(''communities'', JArr [JArr [JArr [JInt 1, JInt 2], JArr [JInt 2, JInt 3]], JArr [JArr [JInt 3, JInt 4]]]), (''algorithm'', JStr ''fuzzy_links''), (''params'', JObj []), (''overlap'', JBool True), (''coverage'', JFloat ''1.0''), (''allocation_matrix'', JObj [(''1'', JArr [JFloat ''0.5'', JFloat ''0.5''])])])) = Inr (PDict [(''communities'', PList [PList [PList [PInt 1, PInt 2], PList [PInt 2, PInt 3]], PList [PList [PInt 3, PInt 4]]]), (''algorithm'', PStr ''fuzzy_links''), (''params'', PDict []), (''overlap'', PBool True), (''coverage'', PFloat ''1.0''), (''allocation_matrix'', PDict [(''1'', PList [PFloat ''0.5'', PFloat ''0.5''])])])"
    by (simp add: dict_of_pairs_def dict_setitem_def)
  have h2: "map_of [(''communities'', PList [PList [PList [PInt 1, PInt 2], PList [PInt 2, PInt 3]], PList [PList [PInt 3, PInt 4]]]), (''algorithm'', PStr ''fuzzy_links''), (''params'', PDict []), (''overlap'', PBool True), (''coverage'', PFloat ''1.0''), (''allocation_matrix'', PDict [(''1'', PList [PFloat ''0.5'', PFloat ''0.5''])])] ''communities'' = Some (PList (map (\<lambda>c. PList (map PList c)) (([PInt 1, PInt 2] # [[PInt 2, PInt 3]]) # [[[PInt 3, PInt 4]]])))"
    by simp
  have h3: "map_of [(''communities'', PList [PList [PList [PInt 1, PInt 2], PList [PInt 2, PInt 3]], PList [PList [PInt 3, PInt 4]]]), (''algorithm'', PStr ''fuzzy_links''), (''params'', PDict []), (''overlap'', PBool True), (''coverage'', PFloat ''1.0''), (''allocation_matrix'', PDict [(''1'', PList [PFloat ''0.5'', PFloat ''0.5''])])] ''algorithm'' = Some (PStr ''fuzzy_links'')"
    by simp
  have h4: "map_of [(''communities'', PList [PList [PList [PInt 1, PInt 2], PList [PInt 2, PInt 3]], PList [PList [PInt 3, PInt 4]]]), (''algorithm'', PStr ''fuzzy_links''), (''params'', PDict []), (''overlap'', PBool True), (''coverage'', PFloat ''1.0''), (''allocation_matrix'', PDict [(''1'', PList [PFloat ''0.5'', PFloat ''0.5''])])] ''params'' = Some (PDict [])"
    by simp
  have h5: "map_of [(''communities'', PList [PList [PList [PInt 1, PInt 2], PList [PInt 2, PInt 3]], PList [PList [PInt 3, PInt 4]]]), (''algorithm'', PStr ''fuzzy_links''), (''params'', PDict []), (''overlap'', PBool True), (''coverage'', PFloat ''1.0''), (''allocation_matrix'', PDict [(''1'', PList [PFloat ''0.5'', PFloat ''0.5''])])] ''overlap'' = Some (PBool True)"
    by simp
  have h6: "map_of [(''communities'', PList [PList [PList [PInt 1, PInt 2], PList [PInt 2, PInt 3]], PList [PList [PInt 3, PInt 4]]]), (''algorithm'', PStr ''fuzzy_links''), (''params'', PDict []), (''overlap'', PBool True), (''coverage'', PFloat ''1.0''), (''allocation_matrix'', PDict [(''1'', PList [PFloat ''0.5'', PFloat ''0.5''])])] ''coverage'' = Some (PFloat ''1.0'')"
    by simp
  have h7: "map_of [(''communities'', PList [PList [PList [PInt 1, PInt 2], PList [PInt 2, PInt 3]], PList [PList [PInt 3, PInt 4]]]), (''algorithm'', PStr ''fuzzy_links''), (''params'', PDict []), (''overlap'', PBool True), (''coverage'', PFloat ''1.0''), (''allocation_matrix'', PDict [(''1'', PList [PFloat ''0.5'', PFloat ''0.5''])])] ''allocation_matrix'' = Some (PDict [(''1'', PList [PFloat ''0.5'', PFloat ''0.5''])])"
    by simp
  show ?thesis
    using fuzzy_edge_document [where fs = Map.empty and path = "''communities.json''", OF h1 h2 h3 h4 h5 h6 h7] h1 h2 h3 h4 h5 h6 h7
    by simp
qed

text \<open>
  The sentence of the specification fails here: the class of the result is \<open>EdgeClustering\<close>, so the result is not flagged as fuzzy.
\<close>

theorem fuzzy_edge_class_counterexample:
  "read_community_json [''fuzzy_edges.json'' \<mapsto> Document (JObj [(''communities'', JArr [JArr [JArr [JInt 1, JInt 2], JArr [JInt 2, JInt 3]]]), (''algorithm'', JStr ''fuzzy_links''), (''params'', JObj []), (''overlap'', JBool True), (''coverage'', JFloat ''1.0''), (''allocation_matrix'', JObj [(''1'', JArr [JFloat ''1.0''])])])] ''fuzzy_edges.json''
   = Inr \<lparr>py_class = EdgeClustering, communities = [PTuple [PTuple [PInt 1, PInt 2], PTuple [PInt 2, PInt 3]]], graph = PNone, method_name = PStr ''fuzzy_links'', method_parameters = PDict [], overlap = PBool True, node_coverage = PFloat ''1.0'', allocation_matrix = Some (PDict [(''1'', PList [PFloat ''1.0''])])\<rparr>
   \<and> py_class \<lparr>py_class = EdgeClustering, communities = [PTuple [PTuple [PInt 1, PInt 2], PTuple [PInt 2, PInt 3]]], graph = PNone, method_name = PStr ''fuzzy_links'', method_parameters = PDict [], overlap = PBool True, node_coverage = PFloat ''1.0'', allocation_matrix = Some (PDict [(''1'', PList [PFloat ''1.0''])])\<rparr> \<noteq> FuzzyNodeClustering"
  by (simp add: json_eval)

section \<open>Fuzzy clustering\<close>

text \<open>
  C6. The specification says that every document with the required keys, non-empty
  communities and the key \<open>allocation_matrix\<close> is read as a fuzzy clustering with
  that matrix, whatever the order of its fields. This holds when every community is an
  array and the first community starts with an element that is not an array: for an
  object without repeated keys, both readers then return an object of class
  \<open>FuzzyNodeClustering\<close> with the allocation matrix of the document, and every
  document with the same fields in another order gives the same object. (A first
  community that is empty raises \<open>IndexError\<close>, and one that starts with an array
  gives the class \<open>EdgeClustering\<close>.)
\<close>

theorem fuzzy_detected_any_field_order:
  assumes "distinct (map fst flds)"
    and "mset flds' = mset flds"
    and "json_decode (JObj flds) = PDict d"
    and "map_of d ''communities'' = Some (PList (map PList ((x # xs) # rest)))"
    and "\<not> is_list x"
    and "map_of d ''algorithm'' = Some alg"
    and "map_of d ''params'' = Some params"
    and "map_of d ''overlap'' = Some ov"
    and "map_of d ''coverage'' = Some cov"
    and "map_of d ''allocation_matrix'' = Some m"
  shows "read_community_from_json_string (Document (JObj flds)) =
     Inr \<lparr>py_class = FuzzyNodeClustering,
          communities = map PTuple ((x # xs) # rest), graph = PNone, method_name = alg,
          method_parameters = params, overlap = ov, node_coverage = cov,
          allocation_matrix = Some m\<rparr>
     \<and> read_community_from_json_string (Document (JObj flds')) =
         read_community_from_json_string (Document (JObj flds))
     \<and> read_community_json (fs(path \<mapsto> Document (JObj flds))) path =
         read_community_from_json_string (Document (JObj flds))
     \<and> read_community_json (fs(path \<mapsto> Document (JObj flds'))) path =
         read_community_from_json_string (Document (JObj flds))"
proof -
  let ?dec = "map (map_prod id json_decode)"
  have keys: "mset (map fst flds') = mset (map fst flds)"
    using assms(2) by (metis mset_map)
  then have dist': "distinct (map fst flds')"
    using assms(1) by (metis mset_eq_imp_distinct_iff)
  have d: "d = ?dec flds"
    using assms(3) json_decode_object_distinct [OF assms(1)] by simp
  have l: "json_loads (Document (JObj flds)) = Inr (PDict d)"
    using assms(3) by simp
  have l': "json_loads (Document (JObj flds')) = Inr (PDict (?dec flds'))"
    using dist' by (simp add: json_decode_object_distinct del: json_decode.simps)
  have "mset (?dec flds') = mset d"
    unfolding d using assms(2) by (metis mset_map)
  then have "map_of (?dec flds') = map_of d"
    by (rule permuted_dict_same_lookup [OF json_loads_dict_distinct [OF l]])
  then have "read_community_from_json_string (Document (JObj flds')) =
      read_community_from_json_string (Document (JObj flds))"
    using l l' by (rule read_depends_on_lookup [rotated 2])
  then show ?thesis
    using read_scalar_first [OF l assms(4-9)] assms(10) by simp
qed

text \<open>
  The theorem at a document with the allocation matrix as its last field and at the same document with the fields reversed.
\<close>

theorem fuzzy_detected_any_field_order_witness:
  "distinct (map fst [(''communities'', JArr [JArr [JInt 1, JInt 2], JArr [JInt 2, JInt 3]]), (''algorithm'', JStr ''frc_fgsn''), (''params'', JObj [(''theta'', JInt 1)]), (''overlap'', JBool True), (''coverage'', JFloat ''1.0''), (''allocation_matrix'', JObj [(''2'', JArr [JFloat ''0.5'', JFloat ''0.5''])])])
   \<and> mset [(''allocation_matrix'', JObj [(''2'', JArr [JFloat ''0.5'', JFloat ''0.5''])]), (''coverage'', JFloat ''1.0''), (''overlap'', JBool True), (''params'', JObj [(''theta'', JInt 1)]), (''algorithm'', JStr ''frc_fgsn''), (''communities'', JArr [JArr [JInt 1, JInt 2], JArr [JInt 2, JInt 3]])] = mset [(''communities'', JArr [JArr [JInt 1, JInt 2], JArr [JInt 2, JInt 3]]), (''algorithm'', JStr ''frc_fgsn''), (''params'', JObj [(''theta'', JInt 1)]), (''overlap'', JBool True), (''coverage'', JFloat ''1.0''), (''allocation_matrix'', JObj [(''2'', JArr [JFloat ''0.5'', JFloat ''0.5''])])]
   \<and> json_decode (JObj [(''communities'', JArr [JArr [JInt 1, JInt 2], JArr [JInt 2, JInt 3]]), (''algorithm'', JStr ''frc_fgsn''), (''params'', JObj [(''theta'', JInt 1)]), (''overlap'', JBool True), (''coverage'', JFloat ''1.0''), (''allocation_matrix'', JObj [(''2'', JArr [JFloat ''0.5'', JFloat ''0.5''])])]) = PDict [(''communities'', PList [PList [PInt 1, PInt 2], PList [PInt 2, PInt 3]]), (''algorithm'', PStr ''frc_fgsn''), (''params'', PDict [(''theta'', PInt 1)]), (''overlap'', PBool True), (''coverage'', PFloat ''1.0''), (''allocation_matrix'', PDict [(''2'', PList [PFloat ''0.5'', PFloat ''0.5''])])]
   \<and> map_of [(''communities'', PList [PList [PInt 1, PInt 2], PList [PInt 2, PInt 3]]), (''algorithm'', PStr ''frc_fgsn''), (''params'', PDict [(''theta'', PInt 1)]), (''overlap'', PBool True), (''coverage'', PFloat ''1.0''), (''allocation_matrix'', PDict [(''2'', PList [PFloat ''0.5'', PFloat ''0.5''])])] ''communities'' = Some (PList (map PList ((PInt 1 # [PInt 2]) # [[PInt 2, PInt 3]])))
   \<and> \<not> is_list (PInt 1)
   \<and> map_of [(''communities'', PList [PList [PInt 1, PInt 2], PList [PInt 2, PInt 3]]), (''algorithm'', PStr ''frc_fgsn''), (''params'', PDict [(''theta'', PInt 1)]), (''overlap'', PBool True), (''coverage'', PFloat ''1.0''), (''allocation_matrix'', PDict [(''2'', PList [PFloat ''0.5'', PFloat ''0.5''])])] ''algorithm'' = Some (PStr ''frc_fgsn'')
   \<and> map_of [(''communities'', PList [PList [PInt 1, PInt 2], PList [PInt 2, PInt 3]]), (''algorithm'', PStr ''frc_fgsn''), (''params'', PDict [(''theta'', PInt 1)]), (''overlap'', PBool True), (''coverage'', PFloat ''1.0''), (''allocation_matrix'', PDict [(''2'', PList [PFloat ''0.5'', PFloat ''0.5''])])] ''params'' = Some (PDict [(''theta'', PInt 1)])
   \<and> map_of [(''communities'', PList [PList [PInt 1, PInt 2], PList [PInt 2, PInt 3]]), (''algorithm'', PStr ''frc_fgsn''), (''params'', PDict [(''theta'', PInt 1)]), (''overlap'', PBool True), (''coverage'', PFloat ''1.0''), (''allocation_matrix'', PDict [(''2'', PList [PFloat ''0.5'', PFloat ''0.5''])])] ''overlap'' = Some (PBool True)
   \<and> map_of [(''communities'', PList [PList [PInt 1, PInt 2], PList [PInt 2, PInt 3]]), (''algorithm'', PStr ''frc_fgsn''), (''params'', PDict [(''theta'', PInt 1)]), (''overlap'', PBool True), (''coverage'', PFloat ''1.0''), (''allocation_matrix'', PDict [(''2'', PList [PFloat ''0.5'', PFloat ''0.5''])])] ''coverage'' = Some (PFloat ''1.0'')
   \<and> map_of [(''communities'', PList [PList [PInt 1, PInt 2], PList [PInt 2, PInt 3]]), (''algorithm'', PStr ''frc_fgsn''), (''params'', PDict [(''theta'', PInt 1)]), (''overlap'', PBool True), (''coverage'', PFloat ''1.0''), (''allocation_matrix'', PDict [(''2'', PList [PFloat ''0.5'', PFloat ''0.5''])])] ''allocation_matrix'' = Some (PDict [(''2'', PList [PFloat ''0.5'', PFloat ''0.5''])])
   \<and> read_community_from_json_string (Document (JObj [(''communities'', JArr [JArr [JInt 1, JInt 2], JArr [JInt 2, JInt 3]]), (''algorithm'', JStr ''frc_fgsn''), (''params'', JObj [(''theta'', JInt 1)]), (''overlap'', JBool True), (''coverage'', JFloat ''1.0''), (''allocation_matrix'', JObj [(''2'', JArr [JFloat ''0.5'', JFloat ''0.5''])])])) = Inr \<lparr>py_class = FuzzyNodeClustering, communities = [PTuple [PInt 1, PInt 2], PTuple [PInt 2, PInt 3]], graph = PNone, method_name = PStr ''frc_fgsn'', method_parameters = PDict [(''theta'', PInt 1)], overlap = PBool True, node_coverage = PFloat ''1.0'', allocation_matrix = Some (PDict [(''2'', PList [PFloat ''0.5'', PFloat ''0.5''])])\<rparr>
   \<and> read_community_from_json_string (Document (JObj [(''allocation_matrix'', JObj [(''2'', JArr [JFloat ''0.5'', JFloat ''0.5''])]), (''coverage'', JFloat ''1.0''), (''overlap'', JBool True), (''params'', JObj [(''theta'', JInt 1)]), (''algorithm'', JStr ''frc_fgsn''), (''communities'', JArr [JArr [JInt 1, JInt 2], JArr [JInt 2, JInt 3]])])) = Inr \<lparr>py_class = FuzzyNodeClustering, communities = [PTuple [PInt 1, PInt 2], PTuple [PInt 2, PInt 3]], graph = PNone, method_name = PStr ''frc_fgsn'', method_parameters = PDict [(''theta'', PInt 1)], overlap = PBool True, node_coverage = PFloat ''1.0'', allocation_matrix = Some (PDict [(''2'', PList [PFloat ''0.5'', PFloat ''0.5''])])\<rparr>
   \<and> read_community_json [''communities.json'' \<mapsto> Document (JObj [(''communities'', JArr [JArr [JInt 1, JInt 2], JArr [JInt 2, JInt 3]]), (''algorithm'', JStr ''frc_fgsn''), (''params'', JObj [(''theta'', JInt 1)]), (''overlap'', JBool True), (''coverage'', JFloat ''1.0''), (''allocation_matrix'', JObj [(''2'', JArr [JFloat ''0.5'', JFloat ''0.5''])])])] ''communities.json'' = Inr \<lparr>py_class = FuzzyNodeClustering, communities = [PTuple [PInt 1, PInt 2], PTuple [PInt 2, PInt 3]], graph = PNone, method_name = PStr ''frc_fgsn'', method_parameters = PDict [(''theta'', PInt 1)], overlap = PBool True, node_coverage = PFloat ''1.0'', allocation_matrix = Some (PDict [(''2'', PList [PFloat ''0.5'', PFloat ''0.5''])])\<rparr>
   \<and> read_community_json [''communities.json'' \<mapsto> Document (JObj [(''allocation_matrix'', JObj [(''2'', JArr [JFloat ''0.5'', JFloat ''0.5''])]), (''coverage'', JFloat ''1.0''), (''overlap'', JBool True), (''params'', JObj [(''theta'', JInt 1)]), (''algorithm'', JStr ''frc_fgsn''), (''communities'', JArr [JArr [JInt 1, JInt 2], JArr [JInt 2, JInt 3]])])] ''communities.json'' = Inr \<lparr>py_class = FuzzyNodeClustering, communities = [PTuple [PInt 1, PInt 2], PTuple [PInt 2, PInt 3]], graph = PNone, method_name = PStr ''frc_fgsn'', method_parameters = PDict [(''theta'', PInt 1)], overlap = PBool True, node_coverage = PFloat ''1.0'', allocation_matrix = Some (PDict [(''2'', PList [PFloat ''0.5'', PFloat ''0.5''])])\<rparr>"
proof -
  have h1: "distinct (map fst [(''communities'', JArr [JArr [JInt 1, JInt 2], JArr [JInt 2, JInt 3]]), (''algorithm'', JStr ''frc_fgsn''), (''params'', JObj [(''theta'', JInt 1)]), (''overlap'', JBool True), (''coverage'', JFloat ''1.0''), (''allocation_matrix'', JObj [(''2'', JArr [JFloat ''0.5'', JFloat ''0.5''])])])"
    by simp
  have h2: "mset [(''allocation_matrix'', JObj [(''2'', JArr [JFloat ''0.5'', JFloat ''0.5''])]), (''coverage'', JFloat ''1.0''), (''overlap'', JBool True), (''params'', JObj [(''theta'', JInt 1)]), (''algorithm'', JStr ''frc_fgsn''), (''communities'', JArr [JArr [JInt 1, JInt 2], JArr [JInt 2, JInt 3]])] = mset [(''communities'', JArr [JArr [JInt 1, JInt 2], JArr [JInt 2, JInt 3]]), (''algorithm'', JStr ''frc_fgsn''), (''params'', JObj [(''theta'', JInt 1)]), (''overlap'', JBool True), (''coverage'', JFloat ''1.0''), (''allocation_matrix'', JObj [(''2'', JArr [JFloat ''0.5'', JFloat ''0.5''])])]"
    by simp
  have h3: "json_decode (JObj [(''communities'', JArr [JArr [JInt 1, JInt 2], JArr [JInt 2, JInt 3]]), (''algorithm'', JStr ''frc_fgsn''), (''params'', JObj [(''theta'', JInt 1)]), (''overlap'', JBool True), (''coverage'', JFloat ''1.0''), (''allocation_matrix'', JObj [(''2'', JArr [JFloat ''0.5'', JFloat ''0.5''])])]) = PDict [(''communities'', PList [PList [PInt 1, PInt 2], PList [PInt 2, PInt 3]]), (''algorithm'', PStr ''frc_fgsn''), (''params'', PDict [(''theta'', PInt 1)]), (''overlap'', PBool True), (''coverage'', PFloat ''1.0''), (''allocation_matrix'', PDict [(''2'', PList [PFloat ''0.5'', PFloat ''0.5''])])]"
    by (simp add: dict_of_pairs_def dict_setitem_def)
  have h4: "map_of [(''communities'', PList [PList [PInt 1, PInt 2], PList [PInt 2, PInt 3]]), (''algorithm'', PStr ''frc_fgsn''), (''params'', PDict [(''theta'', PInt 1)]), (''overlap'', PBool True), (''coverage'', PFloat ''1.0''), (''allocation_matrix'', PDict [(''2'', PList [PFloat ''0.5'', PFloat ''0.5''])])] ''communities'' = Some (PList (map PList ((PInt 1 # [PInt 2]) # [[PInt 2, PInt 3]])))"
    by simp
  have h5: "\<not> is_list (PInt 1)"
    by simp
  have h6: "map_of [(''communities'', PList [PList [PInt 1, PInt 2], PList [PInt 2, PInt 3]]), (''algorithm'', PStr ''frc_fgsn''), (''params'', PDict [(''theta'', PInt 1)]), (''overlap'', PBool True), (''coverage'', PFloat ''1.0''), (''allocation_matrix'', PDict [(''2'', PList [PFloat ''0.5'', PFloat ''0.5''])])] ''algorithm'' = Some (PStr ''frc_fgsn'')"
    by simp
  have h7: "map_of [(''communities'', PList [PList [PInt 1, PInt 2], PList [PInt 2, PInt 3]]), (''algorithm'', PStr ''frc_fgsn''), (''params'', PDict [(''theta'', PInt 1)]), (''overlap'', PBool True), (''coverage'', PFloat ''1.0''), (''allocation_matrix'', PDict [(''2'', PList [PFloat ''0.5'', PFloat ''0.5''])])] ''params'' = Some (PDict [(''theta'', PInt 1)])"
    by simp
  have h8: "map_of [(''communities'', PList [PList [PInt 1, PInt 2], PList [PInt 2, PInt 3]]), (''algorithm'', PStr ''frc_fgsn''), (''params'', PDict [(''theta'', PInt 1)]), (''overlap'', PBool True), (''coverage'', PFloat ''1.0''), (''allocation_matrix'', PDict [(''2'', PList [PFloat ''0.5'', PFloat ''0.5''])])] ''overlap'' = Some (PBool True)"
    by simp
  have h9: "map_of [(''communities'', PList [PList [PInt 1, PInt 2], PList [PInt 2, PInt 3]]), (''algorithm'', PStr ''frc_fgsn''), (''params'', PDict [(''theta'', PInt 1)]), (''overlap'', PBool True), (''coverage'', PFloat ''1.0''), (''allocation_matrix'', PDict [(''2'', PList [PFloat ''0.5'', PFloat ''0.5''])])] ''coverage'' = Some (PFloat ''1.0'')"
    by simp
  have h10: "map_of [(''communities'', PList [PList [PInt 1, PInt 2], PList [PInt 2, PInt 3]]), (''algorithm'', PStr ''frc_fgsn''), (''params'', PDict [(''theta'', PInt 1)]), (''overlap'', PBool True), (''coverage'', PFloat ''1.0''), (''allocation_matrix'', PDict [(''2'', PList [PFloat ''0.5'', PFloat ''0.5''])])] ''allocation_matrix'' = Some (PDict [(''2'', PList [PFloat ''0.5'', PFloat ''0.5''])])"
    by simp
  show ?thesis
    using fuzzy_detected_any_field_order [where fs = Map.empty and path = "''communities.json''", OF h1 h2 h3 h4 h5 h6 h7 h8 h9 h10] h1 h2 h3 h4 h5 h6 h7 h8 h9 h10
    by simp
qed

text \<open>
  The sentence of the specification fails here: the communities \<open>[[]]\<close> are not empty, and the readers raise \<open>IndexError\<close>.
\<close>

theorem fuzzy_empty_community_counterexample:
  "read_community_json [''fuzzy.json'' \<mapsto> Document (JObj [(''communities'', JArr [JArr []]), (''algorithm'', JStr ''frc_fgsn''), (''params'', JObj []), (''overlap'', JBool True), (''coverage'', JFloat ''0.0''), (''allocation_matrix'', JObj [])])] ''fuzzy.json'' = Inl IndexError
   \<and> read_community_from_json_string (Document (JObj [(''communities'', JArr [JArr []]), (''algorithm'', JStr ''frc_fgsn''), (''params'', JObj []), (''overlap'', JBool True), (''coverage'', JFloat ''0.0''), (''allocation_matrix'', JObj [])])) = Inl IndexError"
  by (simp add: json_eval)

section \<open>A missing required key\<close>

text \<open>
  C7. For every document that is an object and lacks one of the keys
  \<open>communities\<close>, \<open>algorithm\<close>, \<open>params\<close>, \<open>overlap\<close>, \<open>coverage\<close>, both
  readers raise the same exception and return no object, so no default value takes the
  place of the missing one. The exception is the \<open>KeyError\<close> of a required key that
  the document lacks, unless the value of \<open>communities\<close> cannot be turned into tuples,
  which raises \<open>TypeError\<close> before the other keys are looked up.
\<close>

theorem missing_required_key_raises:
  assumes "json_loads t = Inr (PDict d)"
    and "k \<in> set required_keys"
    and "map_of d k = None"
  shows "\<exists>e. read_community_from_json_string t = Inl e
           \<and> read_community_json (fs(path \<mapsto> t)) path = Inl e
           \<and> (e = TypeError
              \<or> (\<exists>k'. e = KeyError (PStr k') \<and> k' \<in> set required_keys
                       \<and> map_of d k' = None))"
proof (cases "map_of d ''communities''")
  case None
  then show ?thesis
    using assms(1)
    by (simp add: read_community_from_json_string_def required_keys_def)
next
  case (Some cv)
  show ?thesis
  proof (cases "err_bind (py_iter cv) (traverse py_tuple)")
    case (Inl e)
    then have "e = TypeError"
      by (cases "py_iter cv") (auto dest: py_iter_error traverse_py_tuple_error)
    with Inl Some assms(1) show ?thesis
      by (cases "py_iter cv") (simp_all add: read_community_from_json_string_def)
  next
    case (Inr cs)
    then obtain entries where it: "py_iter cv = Inr entries"
      and tr: "traverse py_tuple entries = Inr cs"
      by (cases "py_iter cv") auto
    from assms(2,3) Some
    have "map_of d ''algorithm'' = None \<or> map_of d ''params'' = None
        \<or> map_of d ''overlap'' = None \<or> map_of d ''coverage'' = None"
      by (auto simp: required_keys_def)
    then show ?thesis
      using assms(1) Some it tr
      by (cases "map_of d ''algorithm''"; cases "map_of d ''params''";
          cases "map_of d ''overlap''"; cases "map_of d ''coverage''")
         (simp_all add: read_community_from_json_string_def required_keys_def)
  qed
qed

text \<open>
  The theorem at a document without \<open>algorithm\<close>: both readers raise \<open>KeyError("algorithm")\<close>.
\<close>

theorem missing_required_key_raises_witness:
  "json_loads (Document (JObj [(''communities'', JArr [JArr [JInt 1, JInt 2], JArr [JInt 3]]), (''params'', JObj []), (''overlap'', JBool False), (''coverage'', JFloat ''0.9'')])) = Inr (PDict [(''communities'', PList [PList [PInt 1, PInt 2], PList [PInt 3]]), (''params'', PDict []), (''overlap'', PBool False), (''coverage'', PFloat ''0.9'')])
   \<and> ''algorithm'' \<in> set required_keys
   \<and> map_of [(''communities'', PList [PList [PInt 1, PInt 2], PList [PInt 3]]), (''params'', PDict []), (''overlap'', PBool False), (''coverage'', PFloat ''0.9'')] ''algorithm'' = None
   \<and> read_community_from_json_string (Document (JObj [(''communities'', JArr [JArr [JInt 1, JInt 2], JArr [JInt 3]]), (''params'', JObj []), (''overlap'', JBool False), (''coverage'', JFloat ''0.9'')])) = Inl (KeyError (PStr ''algorithm''))
   \<and> read_community_json [''communities.json'' \<mapsto> Document (JObj [(''communities'', JArr [JArr [JInt 1, JInt 2], JArr [JInt 3]]), (''params'', JObj []), (''overlap'', JBool False), (''coverage'', JFloat ''0.9'')])] ''communities.json''
       = Inl (KeyError (PStr ''algorithm''))"
proof -
  have h1: "json_loads (Document (JObj [(''communities'', JArr [JArr [JInt 1, JInt 2], JArr [JInt 3]]), (''params'', JObj []), (''overlap'', JBool False), (''coverage'', JFloat ''0.9'')])) = Inr (PDict [(''communities'', PList [PList [PInt 1, PInt 2], PList [PInt 3]]), (''params'', PDict []), (''overlap'', PBool False), (''coverage'', PFloat ''0.9'')])"
    by (simp add: dict_of_pairs_def dict_setitem_def)
  have h2: "''algorithm'' \<in> set required_keys"
    by (simp add: required_keys_def)
  have h3: "map_of [(''communities'', PList [PList [PInt 1, PInt 2], PList [PInt 3]]), (''params'', PDict []), (''overlap'', PBool False), (''coverage'', PFloat ''0.9'')] ''algorithm'' = None"
    by simp
  show ?thesis
    using missing_required_key_raises [where fs = Map.empty and path = "''communities.json''", OF h1 h2 h3] h1 h2 h3
    by (simp add: json_eval)
qed

section \<open>The lines of a CSV file\<close>

text \<open>
  C8. The specification says that \<open>read_community_csv\<close> gives one community per non-empty
  line and none for an empty line. The reader skips no line. For every text, every
  non-empty delimiter and every conversion \<open>g\<close> that does not raise, it returns one
  community per line of the file, in file order: the lines are the pieces of the text
  that end at each newline, and the rest of the text after the last newline when there
  is one, so their number is the number of newlines, plus one when the text does not end
  with a newline. The community of a line is the tuple of the converted tokens of the
  line, stripped of all its trailing white space and split at the delimiter; an empty
  line gives the community with the single element \<open>g("")\<close>.
\<close>

theorem csv_one_community_per_line:
  assumes "fs path = Some text" and "delimiter \<noteq> []"
  shows "read_community_csv fs path delimiter (\<lambda>tok. Inr (g tok)) =
           Inr (new_NodeClustering
                  (map (\<lambda>row. PTuple (map g (split_from delimiter [] (rstrip row))))
                       (file_rows [] text))
                  PNone (PStr []) PNone PNone)
       \<and> concat (file_rows [] text) = text
       \<and> list_all (\<lambda>row. row \<noteq> [] \<and> CHR 0x0A \<notin> set (butlast row)) (file_rows [] text)
       \<and> length (file_rows [] text) =
           count_list text (CHR 0x0A) + (if text = [] \<or> last text = CHR 0x0A then 0 else 1)
       \<and> PTuple (map g (split_from delimiter [] (rstrip [CHR 0x0A]))) = PTuple [g []]"
proof -
  have "read_community_csv fs path delimiter (\<lambda>tok. Inr (g tok)) =
           Inr (new_NodeClustering
                  (map (\<lambda>row. PTuple (map g (split_from delimiter [] (rstrip row))))
                       (file_rows [] text))
                  PNone (PStr []) PNone PNone)"
    using assms by (simp add: read_community_csv_def py_split_def traverse_total)
  moreover have "concat (file_rows [] text) = text"
    by (simp add: concat_file_rows)
  moreover have "list_all (\<lambda>row. row \<noteq> [] \<and> CHR 0x0A \<notin> set (butlast row)) (file_rows [] text)"
    by (simp add: file_rows_lines)
  moreover have "length (file_rows [] text) =
           count_list text (CHR 0x0A) + (if text = [] \<or> last text = CHR 0x0A then 0 else 1)"
    by (simp add: length_file_rows)
  moreover have "PTuple (map g (split_from delimiter [] (rstrip [CHR 0x0A]))) = PTuple [g []]"
    by (simp add: rstrip_def py_isspace_def)
  ultimately show ?thesis by blast
qed

text \<open>
  The theorem at a text with an empty line, a line that ends with a space and a last line without newline.
\<close>

theorem csv_one_community_per_line_witness:
  "[''communities.csv'' \<mapsto> ''0,1'' @ [CHR 0x0A, CHR 0x0A] @ ''2,3 '' @ [CHR 0x0A] @ ''4'']
     ''communities.csv'' = Some (''0,1'' @ [CHR 0x0A, CHR 0x0A] @ ''2,3 '' @ [CHR 0x0A] @ ''4'')
   \<and> '','' \<noteq> []
   \<and> read_community_csv
        [''communities.csv'' \<mapsto> ''0,1'' @ [CHR 0x0A, CHR 0x0A] @ ''2,3 '' @ [CHR 0x0A] @ ''4'']
        ''communities.csv'' '','' (\<lambda>tok. Inr (PStr tok))
      = Inr (new_NodeClustering
               [PTuple [PStr ''0'', PStr ''1''], PTuple [PStr []],
                PTuple [PStr ''2'', PStr ''3''], PTuple [PStr ''4'']]
               PNone (PStr []) PNone PNone)
   \<and> length (file_rows [] (''0,1'' @ [CHR 0x0A, CHR 0x0A] @ ''2,3 '' @ [CHR 0x0A] @ ''4'')) = 4"
  using csv_one_community_per_line
    [of "[''communities.csv'' \<mapsto> ''0,1'' @ [CHR 0x0A, CHR 0x0A] @ ''2,3 '' @ [CHR 0x0A] @ ''4'']"
        "''communities.csv''" "''0,1'' @ [CHR 0x0A, CHR 0x0A] @ ''2,3 '' @ [CHR 0x0A] @ ''4''"
        "'',''" PStr]
  by (simp add: rstrip_def py_isspace_def)

text \<open>
  The sentence of the specification fails here: the empty second line of the text gives a community of its own.
\<close>

theorem csv_empty_line_counterexample:
  "read_community_csv [''communities.csv'' \<mapsto> ''1,2'' @ [CHR 0x0A, CHR 0x0A] @ ''3'' @ [CHR 0x0A]]
     ''communities.csv'' '','' nodetype_str
   = Inr (new_NodeClustering [PTuple [PStr ''1'', PStr ''2''], PTuple [PStr []], PTuple [PStr ''3'']]
            PNone (PStr []) PNone PNone)"
  by (simp add: csv_eval)

section \<open>The two JSON readers agree\<close>

text \<open>
  C9. When the file at \<open>path\<close> holds the JSON text \<open>t\<close>, \<open>read_community_json\<close> on
  the path and \<open>read_community_from_json_string\<close> on the text give the same outcome:
  the same exception, or the same object with the same class, communities and metadata.
\<close>

theorem read_json_file_eq_string:
  "fs path = Some t \<Longrightarrow> read_community_json fs path = read_community_from_json_string t"
  by (simp add: read_community_json_def read_community_from_json_string_def json_load_def)

theorem read_json_file_eq_string_witness:
  "read_community_json
     [''communities.json'' \<mapsto>
        Document (JObj [(''communities'', JArr [JArr [JInt 1, JInt 2], JArr [JInt 3]]),
                        (''algorithm'', JStr ''louvain''), (''params'', JObj []),
                        (''overlap'', JBool False), (''coverage'', JFloat ''0.9'')])]
     ''communities.json''
   = Inr \<lparr>py_class = NodeClustering,
          communities = [PTuple [PInt 1, PInt 2], PTuple [PInt 3]],
          graph = PNone, method_name = PStr ''louvain'', method_parameters = PDict [],
          overlap = PBool False, node_coverage = PFloat ''0.9'',
          allocation_matrix = None\<rparr>"
  by (subst read_json_file_eq_string
        [where t = "Document (JObj [(''communities'', JArr [JArr [JInt 1, JInt 2], JArr [JInt 3]]),
                        (''algorithm'', JStr ''louvain''), (''params'', JObj []),
                        (''overlap'', JBool False), (''coverage'', JFloat ''0.9'')])"])
     (simp_all add: json_eval)

section \<open>No edge conversion when the first element is a scalar\<close>

text \<open>
  C10. The specification says that a document whose first community starts with a scalar is read
  as a plain node clustering. The class depends on the allocation matrix too. When every
  community of the document is an array and the first one starts with an element that
  is not an array, \<open>read_community_json\<close> returns an object whose communities are
  the communities of the document as tuples, with their elements unchanged, so that an
  array inside a later community stays a list; the class is \<open>NodeClustering\<close> when the
  document has no key \<open>allocation_matrix\<close> and \<open>FuzzyNodeClustering\<close> when it has
  one, and never \<open>EdgeClustering\<close>.
\<close>

theorem scalar_first_no_edge_conversion:
  assumes "json_loads t = Inr (PDict d)"
    and "map_of d ''communities'' = Some (PList (map PList ((x # xs) # rest)))"
    and "\<not> is_list x"
    and "map_of d ''algorithm'' = Some alg"
    and "map_of d ''params'' = Some params"
    and "map_of d ''overlap'' = Some ov"
    and "map_of d ''coverage'' = Some cov"
  shows "read_community_json (fs(path \<mapsto> t)) path =
     Inr \<lparr>py_class = (if map_of d ''allocation_matrix'' = None then NodeClustering
                      else FuzzyNodeClustering),
          communities = map PTuple ((x # xs) # rest), graph = PNone, method_name = alg,
          method_parameters = params, overlap = ov, node_coverage = cov,
          allocation_matrix = map_of d ''allocation_matrix''\<rparr>"
  using read_scalar_first [OF assms] by simp

text \<open>
  The theorem at a document whose second community holds the array \<open>[3, 4]\<close>.
\<close>

theorem scalar_first_no_edge_conversion_witness:
  "json_loads (Document (JObj [(''communities'', JArr [JArr [JInt 1, JInt 2], JArr [JArr [JInt 3, JInt 4]]]), (''algorithm'', JStr ''louvain''), (''params'', JObj []), (''overlap'', JBool False), (''coverage'', JFloat ''1.0'')])) = Inr (PDict [(''communities'', PList [PList [PInt 1, PInt 2], PList [PList [PInt 3, PInt 4]]]), (''algorithm'', PStr ''louvain''), (''params'', PDict []), (''overlap'', PBool False), (''coverage'', PFloat ''1.0'')])
   \<and> map_of [(''communities'', PList [PList [PInt 1, PInt 2], PList [PList [PInt 3, PInt 4]]]), (''algorithm'', PStr ''louvain''), (''params'', PDict []), (''overlap'', PBool False), (''coverage'', PFloat ''1.0'')] ''communities'' = Some (PList (map PList ((PInt 1 # [PInt 2]) # [[PList [PInt 3, PInt 4]]])))
   \<and> \<not> is_list (PInt 1)
   \<and> map_of [(''communities'', PList [PList [PInt 1, PInt 2], PList [PList [PInt 3, PInt 4]]]), (''algorithm'', PStr ''louvain''), (''params'', PDict []), (''overlap'', PBool False), (''coverage'', PFloat ''1.0'')] ''algorithm'' = Some (PStr ''louvain'')
   \<and> map_of [(''communities'', PList [PList [PInt 1, PInt 2], PList [PList [PInt 3, PInt 4]]]), (''algorithm'', PStr ''louvain''), (''params'', PDict []), (''overlap'', PBool False), (''coverage'', PFloat ''1.0'')] ''params'' = Some (PDict [])
   \<and> map_of [(''communities'', PList [PList [PInt 1, PInt 2], PList [PList [PInt 3, PInt 4]]]), (''algorithm'', PStr ''louvain''), (''params'', PDict []), (''overlap'', PBool False), (''coverage'', PFloat ''1.0'')] ''overlap'' = Some (PBool False)
   \<and> map_of [(''communities'', PList [PList [PInt 1, PInt 2], PList [PList [PInt 3, PInt 4]]]), (''algorithm'', PStr ''louvain''), (''params'', PDict []), (''overlap'', PBool False), (''coverage'', PFloat ''1.0'')] ''coverage'' = Some (PFloat ''1.0'')
   \<and> read_community_json [''communities.json'' \<mapsto> Document (JObj [(''communities'', JArr [JArr [JInt 1, JInt 2], JArr [JArr [JInt 3, JInt 4]]]), (''algorithm'', JStr ''louvain''), (''params'', JObj []), (''overlap'', JBool False), (''coverage'', JFloat ''1.0'')])] ''communities.json'' = Inr \<lparr>py_class = NodeClustering, communities = [PTuple [PInt 1, PInt 2], PTuple [PList [PInt 3, PInt 4]]], graph = PNone, method_name = PStr ''louvain'', method_parameters = PDict [], overlap = PBool False, node_coverage = PFloat ''1.0'', allocation_matrix = None\<rparr>"
proof -
  have h1: "json_loads (Document (JObj [(''communities'', JArr [JArr [JInt 1, JInt 2], JArr [JArr [JInt 3, JInt 4]]]), (''algorithm'', JStr ''louvain''), (''params'', JObj []), (''overlap'', JBool False), (''coverage'', JFloat ''1.0'')])) = Inr (PDict [(''communities'', PList [PList [PInt 1, PInt 2], PList [PList [PInt 3, PInt 4]]]), (''algorithm'', PStr ''louvain''), (''params'', PDict []), (''overlap'', PBool False), (''coverage'', PFloat ''1.0'')])"
    by (simp add: dict_of_pairs_def dict_setitem_def)
  have h2: "map_of [(''communities'', PList [PList [PInt 1, PInt 2], PList [PList [PInt 3, PInt 4]]]), (''algorithm'', PStr ''louvain''), (''params'', PDict []), (''overlap'', PBool False), (''coverage'', PFloat ''1.0'')] ''communities'' = Some (PList (map PList ((PInt 1 # [PInt 2]) # [[PList [PInt 3, PInt 4]]])))"
    by simp
  have h3: "\<not> is_list (PInt 1)"
    by simp
  have h4: "map_of [(''communities'', PList [PList [PInt 1, PInt 2], PList [PList [PInt 3, PInt 4]]]), (''algorithm'', PStr ''louvain''), (''params'', PDict []), (''overlap'', PBool False), (''coverage'', PFloat ''1.0'')] ''algorithm'' = Some (PStr ''louvain'')"
    by simp
  have h5: "map_of [(''communities'', PList [PList [PInt 1, PInt 2], PList [PList [PInt 3, PInt 4]]]), (''algorithm'', PStr ''louvain''), (''params'', PDict []), (''overlap'', PBool False), (''coverage'', PFloat ''1.0'')] ''params'' = Some (PDict [])"
    by simp
  have h6: "map_of [(''communities'', PList [PList [PInt 1, PInt 2], PList [PList [PInt 3, PInt 4]]]), (''algorithm'', PStr ''louvain''), (''params'', PDict []), (''overlap'', PBool False), (''coverage'', PFloat ''1.0'')] ''overlap'' = Some (PBool False)"
    by simp
  have h7: "map_of [(''communities'', PList [PList [PInt 1, PInt 2], PList [PList [PInt 3, PInt 4]]]), (''algorithm'', PStr ''louvain''), (''params'', PDict []), (''overlap'', PBool False), (''coverage'', PFloat ''1.0'')] ''coverage'' = Some (PFloat ''1.0'')"
    by simp
  show ?thesis
    using scalar_first_no_edge_conversion [where fs = Map.empty and path = "''communities.json''", OF h1 h2 h3 h4 h5 h6 h7] h1 h2 h3 h4 h5 h6 h7
    by simp
qed

text \<open>
  The sentence of the specification fails here: with an allocation matrix the class of the result is \<open>FuzzyNodeClustering\<close>.
\<close>

theorem scalar_first_fuzzy_counterexample:
  "read_community_json [''mixed.json'' \<mapsto> Document (JObj [(''communities'', JArr [JArr [JInt 1, JInt 2], JArr [JArr [JInt 3, JInt 4]]]), (''algorithm'', JStr ''louvain''), (''params'', JObj []), (''overlap'', JBool False), (''coverage'', JFloat ''1.0''), (''allocation_matrix'', JObj [(''1'', JArr [JFloat ''1.0''])])])] ''mixed.json''
   = Inr \<lparr>py_class = FuzzyNodeClustering, communities = [PTuple [PInt 1, PInt 2], PTuple [PList [PInt 3, PInt 4]]], graph = PNone, method_name = PStr ''louvain'', method_parameters = PDict [], overlap = PBool False, node_coverage = PFloat ''1.0'', allocation_matrix = Some (PDict [(''1'', PList [PFloat ''1.0''])])\<rparr>"
  by (simp add: json_eval)

end
